theory Spec2Isabelle
  imports Main "HOL-Library.Word"
begin

section \<open>Nodes of the wire protocol\<close>

text \<open>
  Modelled from the spec: package \<open>binary\<close> (the type \<open>Node\<close> and its accessors
  \<open>GetChildren\<close>, \<open>GetOptionalChildByTag\<close>, \<open>AttrGetter\<close>) is not among the sources.
  A node is a tag, an unordered mapping from attribute names to values, and a content that
  is absent, an ordered sequence of child nodes, or raw bytes. Attribute values are Go
  \<open>interface{}\<close> values; the handlers below only ask whether one is a string.
\<close>

datatype attr = AttrString string | AttrInt int | AttrBytes "8 word list"

datatype node = Node (Tag: string) (Attrs: "string \<Rightarrow> attr option") (Content: content)
  and content = ContentNil | ContentNodes "node list" | ContentBytes "8 word list"

text \<open>
  Modelled from the spec: \<open>GetChildren\<close> is the ordered sequence of child nodes, empty when
  the content is not a sequence of nodes.
\<close>

fun GetChildren :: "node \<Rightarrow> node list" where
  "GetChildren (Node t a (ContentNodes ns)) = ns"
| "GetChildren (Node t a ContentNil) = []"
| "GetChildren (Node t a (ContentBytes bs)) = []"

text \<open>
  Modelled from the spec: \<open>GetOptionalChildByTag\<close> with one tag is the optional nested child
  carrying that tag, the first one in order. The Go function returns a node and a flag; the
  callers here discard the flag, and every theorem below is about nodes where the child is
  present.
\<close>

definition GetOptionalChildByTag :: "node \<Rightarrow> string \<Rightarrow> node option" where
  "GetOptionalChildByTag n tag = find (\<lambda>c. Tag c = tag) (GetChildren n)"

text \<open>
  The type assertion \<open>node.Attrs[key].(string)\<close> with its flag discarded: the string value
  of the attribute, and the empty string when the attribute is missing or not a string.
\<close>

definition attrString :: "node \<Rightarrow> string \<Rightarrow> string" where
  "attrString n key = (case Attrs n key of Some (AttrString s) \<Rightarrow> s | _ \<Rightarrow> [])"

text \<open>
  Modelled from the spec: \<open>AttrGetter().OptionalString\<close> on the optional child reads its
  string attribute; \<open>AttrGetter().String\<close> reads a required string attribute and yields the
  empty string when it is missing.
\<close>

definition OptionalString :: "node option \<Rightarrow> string \<Rightarrow> string" where
  "OptionalString c key = (case c of None \<Rightarrow> [] | Some n \<Rightarrow> attrString n key)"

definition String_attr :: "node \<Rightarrow> string \<Rightarrow> string" where
  "String_attr n key = attrString n key"

section \<open>Events\<close>

datatype event =
    QRScannedWithoutMultidevice
  | Connected
  | LoggedOut (OnConnect: bool)
  | StreamReplaced
  | ConnectFailure (Reason: string) (Raw: node)
  | StreamError (Code: string) (Raw: node)
  | Disconnected
  | OtherEvent string


section \<open>The client\<close>

text \<open>
  An event handler is a Go closure. It either returns or panics with a value; what else it
  does is outside the client.
\<close>

datatype handler_result = Returns | Panics string

type_synonym EventHandler = "event \<Rightarrow> handler_result"

record wrappedEventHandler =
  fn :: "EventHandler option"
  id' :: "32 word"

text \<open>
  Modelled from the spec: the credential store is used through \<open>delete() -> ok|error\<close> and
  its stored session identifier. \<open>deleteErr\<close> is the error the store answers a deletion with
  (\<open>None\<close> for success); \<open>deleteCalls\<close> counts the invocations.
\<close>

record Device =
  ID :: "string option"
  deleteErr :: "string option"
  deleteCalls :: nat

definition Delete :: "Device \<Rightarrow> string option \<times> Device" where
  "Delete d = (deleteErr d, d\<lparr>deleteCalls := Suc (deleteCalls d)\<rparr>)"

datatype error = ErrAlreadyConnected | ErrDial string | ErrHandshake string

text \<open>
  A panic of the Go runtime or of a handler. A function that can panic returns
  \<open>panic + 'a\<close>, with \<open>Inl\<close> for the panic.
\<close>

datatype panic = IndexOutOfRange | NilDereference | HandlerPanic string

datatype level = Debug | Info | Warn | Error

datatype logarg =
    ArgString string
  | ArgType string
  | ArgStack
  | ArgNode node
  | ArgDuration "64 word"
  | ArgBytes "8 word list"
  | ArgPanic panic
  | ArgError error

datatype logline = Logf level string "logarg list"

text \<open>
  A \<open>go\<close> statement starts a detached task. The model records the tasks started, in order.
\<close>

datatype task =
    DispatchEvent event
  | Reconnect515
  | PostConnect
  | AutoReconnect
  | EnqueueNode node
  | KeepAliveLoop nat
  | HandlerQueueLoop nat

datatype nodeHandler =
    handleEncryptedMessage_h
  | handleReceipt_h
  | handleCallEvent_h
  | handleChatState_h
  | handlePresence_h
  | handleNotification_h
  | handleConnectSuccess_h
  | handleConnectFailure_h
  | handleStreamError_h
  | handleIQ_h
  | handleIB_h

text \<open>
  The fields of \<open>Client\<close> that the functions below read or write. A socket is a pointer,
  modelled by a number. \<open>Log\<close>, \<open>recvLog\<close>, \<open>spawned\<close>, \<open>stops\<close>, \<open>sleeps\<close>,
  \<open>closedWaiters\<close>, \<open>delivered\<close> and \<open>calls\<close> record effects: lines logged on either
  logger, tasks started, calls of \<open>Stop\<close> on a socket with their argument, durations slept,
  response channels closed, responses handed to a channel, and handler invocations.
\<close>

record Client =
  Store :: Device
  Log :: "logline list"
  recvLog :: "logline list"
  socket :: "nat option"
  isLoggedIn :: "32 word"
  expectedDisconnectVal :: "32 word"
  EnableAutoReconnect :: bool
  LastSuccessfulConnect :: nat
  AutoReconnectErrors :: "64 word"
  responseWaiters :: "string \<Rightarrow> nat option"
  nodeHandlers :: "string \<Rightarrow> nodeHandler option"
  handlerQueue :: "node list"
  eventHandlers :: "wrappedEventHandler list"
  spawned :: "task list"
  stops :: "(nat \<times> bool) list"
  sleeps :: "64 word list"
  closedWaiters :: "nat set"
  delivered :: "(nat \<times> node) list"
  calls :: "(32 word \<times> event) list"

definition logf :: "level \<Rightarrow> string \<Rightarrow> logarg list \<Rightarrow> Client \<Rightarrow> Client" where
  "logf l fmt args cli = cli\<lparr>Log := Log cli @ [Logf l fmt args]\<rparr>"

definition go :: "task \<Rightarrow> Client \<Rightarrow> Client" where
  "go t cli = cli\<lparr>spawned := spawned cli @ [t]\<rparr>"

definition expectDisconnect :: "Client \<Rightarrow> Client" where
  "expectDisconnect cli = cli\<lparr>expectedDisconnectVal := 1\<rparr>"


definition isExpectedDisconnect :: "Client \<Rightarrow> bool" where
  "isExpectedDisconnect cli = (expectedDisconnectVal cli = 1)"

definition Store_Delete :: "Client \<Rightarrow> string option \<times> Client" where
  "Store_Delete cli = (case Delete (Store cli) of (err, d) \<Rightarrow> (err, cli\<lparr>Store := d\<rparr>))"

section \<open>Classification of stream errors and connect failures\<close>

definition handleStreamError :: "Client \<Rightarrow> node \<Rightarrow> Client" where
  "handleStreamError cli0 node =
    (let cli = cli0\<lparr>isLoggedIn := 0\<rparr>;
         code = attrString node ''code'';
         conflict = GetOptionalChildByTag node ''conflict'';
         conflictType = OptionalString conflict ''type''
     in if code = ''515'' then
          go Reconnect515 (logf Info ''Got 515 code, reconnecting...'' [] cli)
        else if code = ''401'' \<and> conflictType = ''device_removed'' then
          (case Store_Delete
                  (go (DispatchEvent (LoggedOut False))
                    (logf Info ''Got device removed stream error, sending LoggedOut event and deleting session'' []
                      (expectDisconnect cli))) of
             (None, cli') \<Rightarrow> cli'
           | (Some err, cli') \<Rightarrow>
               logf Warn ''Failed to delete store after device_removed error: %v'' [ArgString err] cli')
        else if conflictType = ''replaced'' then
          go (DispatchEvent StreamReplaced)
            (logf Info ''Got replaced stream error, sending StreamReplaced event'' []
              (expectDisconnect cli))
        else if code = ''503'' then
          logf Warn ''Got 503 stream error, assuming automatic reconnect will handle it'' [] cli
        else
          go (DispatchEvent (StreamError code node))
            (logf Error ''Unknown stream error: %s'' [ArgNode node] cli))"

definition handleIB :: "Client \<Rightarrow> node \<Rightarrow> Client" where
  "handleIB cli node =
    (let children = GetChildren node
     in if length children = 1 \<and> Tag (children ! 0) = ''downgrade_webclient''
        then go (DispatchEvent QRScannedWithoutMultidevice) cli
        else cli)"

definition handleConnectFailure :: "Client \<Rightarrow> node \<Rightarrow> Client" where
  "handleConnectFailure cli node =
    (let reason = String_attr node ''reason''
     in if reason = ''401'' then
          (case Store_Delete
                  (go (DispatchEvent (LoggedOut True))
                    (logf Info ''Got 401 connect failure, sending LoggedOut event and deleting session'' []
                      (expectDisconnect cli))) of
             (None, cli') \<Rightarrow> cli'
           | (Some err, cli') \<Rightarrow>
               logf Warn ''Failed to delete store after 401 failure: %v'' [ArgString err] cli')
        else
          go (DispatchEvent (ConnectFailure reason node))
            (logf Warn ''Unknown connect failure: %s'' [ArgNode node]
              (expectDisconnect cli)))"


section \<open>Connecting and disconnecting\<close>

text \<open>Size of buffer for the channel that all incoming nodes go through.\<close>

definition handlerQueueSize :: nat where
  "handlerQueueSize = 2048"

definition NewClient :: "Device \<Rightarrow> Client" where
  "NewClient deviceStore =
    \<lparr>Store = deviceStore,
     Log = [],
     recvLog = [],
     socket = None,
     isLoggedIn = 0,
     expectedDisconnectVal = 0,
     EnableAutoReconnect = True,
     LastSuccessfulConnect = 0,
     AutoReconnectErrors = 0,
     responseWaiters = Map.empty,
     nodeHandlers =
       [''message'' \<mapsto> handleEncryptedMessage_h,
        ''receipt'' \<mapsto> handleReceipt_h,
        ''call'' \<mapsto> handleCallEvent_h,
        ''chatstate'' \<mapsto> handleChatState_h,
        ''presence'' \<mapsto> handlePresence_h,
        ''notification'' \<mapsto> handleNotification_h,
        ''success'' \<mapsto> handleConnectSuccess_h,
        ''failure'' \<mapsto> handleConnectFailure_h,
        ''stream:error'' \<mapsto> handleStreamError_h,
        ''iq'' \<mapsto> handleIQ_h,
        ''ib'' \<mapsto> handleIB_h],
     handlerQueue = [],
     eventHandlers = [],
     spawned = [],
     stops = [],
     sleeps = [],
     closedWaiters = {},
     delivered = [],
     calls = []\<rparr>"

text \<open>
  \<open>socket.Stop(disconnect)\<close> belongs to package \<open>socket\<close>, which has no access to the
  client's unexported fields; the model records the call.
\<close>

definition Stop :: "nat \<Rightarrow> bool \<Rightarrow> Client \<Rightarrow> Client" where
  "Stop ns disconnect cli = cli\<lparr>stops := stops cli @ [(ns, disconnect)]\<rparr>"

definition unlockedDisconnect :: "Client \<Rightarrow> Client" where
  "unlockedDisconnect cli =
    (case socket cli of
       Some s \<Rightarrow> (Stop s True cli)\<lparr>socket := None\<rparr>
     | None \<Rightarrow> cli)"

definition Disconnect :: "Client \<Rightarrow> Client" where
  "Disconnect cli = (if socket cli = None then cli else unlockedDisconnect cli)"




text \<open>
  Modelled from the spec: \<open>clearResponseWaiters\<close> is not among the sources; it delivers a
  connection-closed cancellation to every outstanding waiter and clears the registry.
\<close>

definition clearResponseWaiters :: "Client \<Rightarrow> Client" where
  "clearResponseWaiters cli =
    cli\<lparr>closedWaiters := closedWaiters cli \<union> ran (responseWaiters cli),
        responseWaiters := Map.empty\<rparr>"

definition onDisconnect :: "Client \<Rightarrow> nat \<Rightarrow> bool \<Rightarrow> Client" where
  "onDisconnect cli0 ns remote =
    (let cli = Stop ns False cli0
     in if socket cli = Some ns then
          (let cli1 = clearResponseWaiters (cli\<lparr>socket := None\<rparr>)
           in if \<not> isExpectedDisconnect cli1 \<and> remote then
                go AutoReconnect
                  (go (DispatchEvent Disconnected)
                    (logf Debug ''Emitting Disconnected event'' [] cli1))
              else if remote then
                logf Debug ''OnDisconnect() called, but it was expected, so not emitting event'' [] cli1
              else
                logf Debug ''OnDisconnect() called after manual disconnection'' [] cli1)
        else logf Debug ''Ignoring OnDisconnect on different socket'' [] cli)"





section \<open>Event handlers\<close>

text \<open>
  \<open>nextHandlerID\<close> is a package-level counter; the model passes it in and returns it
  incremented, together with the identifier handed out.
\<close>

definition AddEventHandler :: "32 word \<Rightarrow> Client \<Rightarrow> EventHandler option \<Rightarrow> 32 word \<times> 32 word \<times> Client" where
  "AddEventHandler nextHandlerID cli handler =
    (let nextID = nextHandlerID + 1
     in (nextID, nextID,
         cli\<lparr>eventHandlers := eventHandlers cli @ [\<lparr>fn = handler, id' = nextID\<rparr>]\<rparr>))"

text \<open>
  \<open>copy(xs[d:], xs[s:])\<close> on one backing array: it moves \<open>min (len xs - d) (len xs - s)\<close>
  elements as \<open>memmove\<close> does, and slicing beyond the length panics.
\<close>

definition copy_within :: "'a list \<Rightarrow> nat \<Rightarrow> nat \<Rightarrow> panic + 'a list" where
  "copy_within xs d s =
    (if d \<le> length xs \<and> s \<le> length xs then
       (let src = drop s xs; n = min (length xs - d) (length src)
        in Inr (take d xs @ take n src @ drop (d + n) xs))
     else Inl IndexOutOfRange)"

text \<open>\<open>xs[i].fn = nil\<close>, which panics when \<open>i\<close> is out of range.\<close>

definition clear_fn :: "wrappedEventHandler list \<Rightarrow> int \<Rightarrow> panic + wrappedEventHandler list" where
  "clear_fn xs i =
    (if 0 \<le> i \<and> i < int (length xs) then Inr (xs[nat i := (xs ! nat i)\<lparr>fn := None\<rparr>])
     else Inl IndexOutOfRange)"

text \<open>The body of the loop of \<open>RemoveEventHandler\<close> once the identifier is found at \<open>index\<close>.\<close>

definition remove_found :: "wrappedEventHandler list \<Rightarrow> nat \<Rightarrow> panic + wrappedEventHandler list" where
  "remove_found hs index =
    (if index = 0 then
       (case clear_fn hs 0 of
          Inl p \<Rightarrow> Inl p
        | Inr hs1 \<Rightarrow> if 1 \<le> length hs1 then Inr (drop 1 hs1) else Inl IndexOutOfRange)
     else
       (case (if int index < int (length hs) - 1 then copy_within hs index (index + 1) else Inr hs) of
          Inl p \<Rightarrow> Inl p
        | Inr hs1 \<Rightarrow>
            (case clear_fn hs1 (int (length hs1) - 1) of
               Inl p \<Rightarrow> Inl p
             | Inr hs2 \<Rightarrow>
                 if 0 \<le> int (length hs2) - 1 then Inr (take (nat (int (length hs2) - 1)) hs2)
                 else Inl IndexOutOfRange)))"

function RemoveEventHandler_from :: "wrappedEventHandler list \<Rightarrow> 32 word \<Rightarrow> nat \<Rightarrow> panic + bool \<times> wrappedEventHandler list" where
  "RemoveEventHandler_from hs i index =
    (if index < length hs then
       (if id' (hs ! index) = i then
          (case remove_found hs index of Inl p \<Rightarrow> Inl p | Inr hs' \<Rightarrow> Inr (True, hs'))
        else RemoveEventHandler_from hs i (Suc index))
     else Inr (False, hs))"
  by pat_completeness auto
termination
  by (relation "measure (\<lambda>(hs, i, index). length hs - index)") auto

definition RemoveEventHandler :: "Client \<Rightarrow> 32 word \<Rightarrow> panic + bool \<times> Client" where
  "RemoveEventHandler cli i =
    (case RemoveEventHandler_from (eventHandlers cli) i 0 of
       Inl p \<Rightarrow> Inl p
     | Inr (found, hs) \<Rightarrow> Inr (found, cli\<lparr>eventHandlers := hs\<rparr>))"

definition RemoveEventHandlers :: "Client \<Rightarrow> Client" where
  "RemoveEventHandlers cli = cli\<lparr>eventHandlers := []\<rparr>"



section \<open>Incoming frames\<close>

text \<open>
  Modelled from the spec: \<open>receiveResponse\<close> is not among the sources. It looks up the waiter
  of the request identifier the node carries (its \<open>id\<close> attribute) and removes it; if found,
  it hands the node to the waiting caller and returns true; if not found, it returns false.
\<close>

definition receiveResponse :: "Client \<Rightarrow> node \<Rightarrow> bool \<times> Client" where
  "receiveResponse cli node =
    (case Attrs node ''id'' of
       Some (AttrString i) \<Rightarrow>
         (case responseWaiters cli i of
            Some waiter \<Rightarrow>
              (True, cli\<lparr>responseWaiters := (responseWaiters cli)(i := None),
                         delivered := delivered cli @ [(waiter, node)]\<rparr>)
          | None \<Rightarrow> (False, cli))
     | _ \<Rightarrow> (False, cli))"

text \<open>
  \<open>handleFrame\<close>. The codec (\<open>waBinary.Unpack\<close>, \<open>waBinary.Unmarshal\<close>) is not among the
  sources and is a parameter. The \<open>select\<close> with a \<open>default\<close> branch sends to the buffered
  channel when it has room and takes the default branch when it is full.
\<close>

definition handleFrame ::
  "(8 word list \<Rightarrow> string + 8 word list) \<Rightarrow> (8 word list \<Rightarrow> string + node) \<Rightarrow> Client \<Rightarrow> 8 word list \<Rightarrow> Client" where
  "handleFrame Unpack Unmarshal cli data =
    (case Unpack data of
       Inl err \<Rightarrow>
         logf Debug ''Errored frame hex: %s'' [ArgBytes data]
           (logf Warn ''Failed to decompress frame: %v'' [ArgString err] cli)
     | Inr decompressed \<Rightarrow>
         (case Unmarshal decompressed of
            Inl err \<Rightarrow>
              logf Debug ''Errored frame hex: %s'' [ArgBytes decompressed]
                (logf Warn ''Failed to decode node in frame: %v'' [ArgString err] cli)
          | Inr node \<Rightarrow>
              (let cli1 = cli\<lparr>recvLog := recvLog cli @ [Logf Debug ''%s'' [ArgNode node]]\<rparr>
               in if Tag node = ''xmlstreamend'' then
                    (if \<not> isExpectedDisconnect cli1
                     then logf Warn ''Received stream end frame'' [] cli1 else cli1)
                  else
                    (case receiveResponse cli1 node of
                       (True, cli2) \<Rightarrow> cli2
                     | (False, cli2) \<Rightarrow>
                         if nodeHandlers cli2 (Tag node) \<noteq> None then
                           (if length (handlerQueue cli2) < handlerQueueSize then
                              cli2\<lparr>handlerQueue := handlerQueue cli2 @ [node]\<rparr>
                            else
                              go (EnqueueNode node)
                                (logf Warn ''Handler queue is full, message ordering is no longer guaranteed'' [] cli2))
                         else
                           logf Debug ''Didn't handle WhatsApp node %s'' [ArgString (Tag node)] cli2))))"

text \<open>
  The detached task started when the queue is full: one blocking send. \<open>None\<close> means that
  the send is still blocked because the queue is full.
\<close>

definition runEnqueueNode :: "Client \<Rightarrow> node \<Rightarrow> Client option" where
  "runEnqueueNode cli node =
    (if length (handlerQueue cli) < handlerQueueSize
     then Some (cli\<lparr>handlerQueue := handlerQueue cli @ [node]\<rparr>)
     else None)"

section \<open>Concrete clients and nodes\<close>

definition dev0 :: Device where
  "dev0 = \<lparr>ID = Some ''123@s.whatsapp.net'', deleteErr = None, deleteCalls = 0\<rparr>"

definition connected_client :: Client where
  "connected_client = (NewClient dev0)\<lparr>socket := Some 7, isLoggedIn := 1\<rparr>"

definition conflict_replaced :: node where
  "conflict_replaced = Node ''conflict'' [''type'' \<mapsto> AttrString ''replaced''] ContentNil"

definition conflict_device_removed :: node where
  "conflict_device_removed = Node ''conflict'' [''type'' \<mapsto> AttrString ''device_removed''] ContentNil"

definition streamError_515_replaced :: node where
  "streamError_515_replaced =
     Node ''stream:error'' [''code'' \<mapsto> AttrString ''515''] (ContentNodes [conflict_replaced])"

definition streamError_401_replaced :: node where
  "streamError_401_replaced =
     Node ''stream:error'' [''code'' \<mapsto> AttrString ''401''] (ContentNodes [conflict_replaced])"

definition streamError_401_device_removed :: node where
  "streamError_401_device_removed =
     Node ''stream:error'' [''code'' \<mapsto> AttrString ''401''] (ContentNodes [conflict_device_removed])"

definition failure_401 :: node where
  "failure_401 = Node ''failure'' [''reason'' \<mapsto> AttrString ''401''] ContentNil"

definition failure_405 :: node where
  "failure_405 = Node ''failure'' [''reason'' \<mapsto> AttrString ''405''] ContentNil"

definition panicking_handler :: EventHandler where
  "panicking_handler evt = Panics ''boom''"

definition returning_handler :: EventHandler where
  "returning_handler evt = Returns"


definition three_handlers_client :: Client where
  "three_handlers_client =
     (NewClient dev0)\<lparr>eventHandlers :=
        [\<lparr>fn = Some returning_handler, id' = 1\<rparr>, \<lparr>fn = Some panicking_handler, id' = 2\<rparr>,
         \<lparr>fn = Some returning_handler, id' = 3\<rparr>]\<rparr>"

definition iq_response :: node where
  "iq_response = Node ''iq'' [''id'' \<mapsto> AttrString ''42''] ContentNil"

definition iq_request :: node where
  "iq_request = Node ''iq'' [''id'' \<mapsto> AttrString ''43''] ContentNil"

definition waiting_client :: Client where
  "waiting_client = (NewClient dev0)\<lparr>responseWaiters := [''42'' \<mapsto> 5]\<rparr>"

definition full_client :: Client where
  "full_client = (NewClient dev0)\<lparr>handlerQueue := replicate handlerQueueSize iq_request\<rparr>"

definition Unpack_id :: "8 word list \<Rightarrow> string + 8 word list" where
  "Unpack_id data = Inr data"

definition Unmarshal_const :: "node \<Rightarrow> 8 word list \<Rightarrow> string + node" where
  "Unmarshal_const n data = Inr n"





section \<open>Stream errors\<close>

text \<open>
  Claim C1, as amended. For every stream-error node whose nested conflict child has type
  "replaced" and whose code attribute is not the string "515", \<open>handleStreamError\<close> marks
  the disconnect as expected and starts exactly one detached task, the dispatch of a
  \<open>StreamReplaced\<close> event; besides that it clears the logged-in flag and logs one line. The
  rule wins over the rules for the codes "401" and "503". (The rule for code "515" is
  tested first, see the counterexample below.)
\<close>

theorem handleStreamError_replaced:
  assumes "Attrs node ''code'' \<noteq> Some (AttrString ''515'')"
    and "GetOptionalChildByTag node ''conflict'' = Some c"
    and "Attrs c ''type'' = Some (AttrString ''replaced'')"
  shows "handleStreamError cli node =
           cli\<lparr>isLoggedIn := 0, expectedDisconnectVal := 1,
               Log := Log cli @ [Logf Info ''Got replaced stream error, sending StreamReplaced event'' []],
               spawned := spawned cli @ [DispatchEvent StreamReplaced]\<rparr>"
proof -
  have code: "attrString node ''code'' \<noteq> ''515''"
    using assms(1) by (auto simp: attrString_def split: option.splits attr.splits)
  have ct: "OptionalString (GetOptionalChildByTag node ''conflict'') ''type'' = ''replaced''"
    using assms(2,3) by (simp add: OptionalString_def attrString_def)
  show ?thesis
    unfolding handleStreamError_def Let_def ct using code
    by (simp add: go_def logf_def expectDisconnect_def)
qed

text \<open>The amended rule at code "401" with conflict type "replaced".\<close>

theorem handleStreamError_replaced_witness:
  "handleStreamError (NewClient dev0) streamError_401_replaced =
     (NewClient dev0)\<lparr>isLoggedIn := 0, expectedDisconnectVal := 1,
        Log := [Logf Info ''Got replaced stream error, sending StreamReplaced event'' []],
        spawned := [DispatchEvent StreamReplaced]\<rparr>"
  using handleStreamError_replaced [of streamError_401_replaced conflict_replaced "NewClient dev0"]
  by (simp add: streamError_401_replaced_def conflict_replaced_def GetOptionalChildByTag_def
      NewClient_def)

text \<open>
  Claim C1 as stated fails at code "515": the node has a conflict child of type "replaced",
  yet the expected-disconnect flag stays clear and the only task started is the reconnect
  of the "515" rule; no \<open>StreamReplaced\<close> event is dispatched.
\<close>

theorem handleStreamError_replaced_515_counterexample:
  "GetOptionalChildByTag streamError_515_replaced ''conflict'' = Some conflict_replaced
   \<and> Attrs conflict_replaced ''type'' = Some (AttrString ''replaced'')
   \<and> expectedDisconnectVal (handleStreamError (NewClient dev0) streamError_515_replaced) = 0
   \<and> spawned (handleStreamError (NewClient dev0) streamError_515_replaced) = [Reconnect515]"
  by (simp add: streamError_515_replaced_def conflict_replaced_def GetOptionalChildByTag_def
      handleStreamError_def attrString_def OptionalString_def NewClient_def go_def logf_def)

text \<open>
  Claim C4. For every stream-error node with code "401" and nested conflict type
  "device_removed", \<open>handleStreamError\<close> sets the expected-disconnect flag, starts exactly
  one detached task, the dispatch of \<open>LoggedOut\<close> with \<open>OnConnect\<close> false, and invokes the
  deletion of the credential store exactly once. The equation gives the whole resulting
  client: nothing else changes but the logged-in flag, which \<open>handleStreamError\<close> clears
  for every node before it classifies, and the log.
\<close>

theorem handleStreamError_device_removed:
  assumes "Attrs node ''code'' = Some (AttrString ''401'')"
    and "GetOptionalChildByTag node ''conflict'' = Some c"
    and "Attrs c ''type'' = Some (AttrString ''device_removed'')"
  shows "handleStreamError cli node =
           cli\<lparr>isLoggedIn := 0, expectedDisconnectVal := 1,
               spawned := spawned cli @ [DispatchEvent (LoggedOut False)],
               Store := (Store cli)\<lparr>deleteCalls := Suc (deleteCalls (Store cli))\<rparr>,
               Log := Log cli @
                 Logf Info ''Got device removed stream error, sending LoggedOut event and deleting session'' [] #
                 (case deleteErr (Store cli) of
                    None \<Rightarrow> []
                  | Some err \<Rightarrow>
                      [Logf Warn ''Failed to delete store after device_removed error: %v'' [ArgString err]])\<rparr>"
proof -
  have code: "attrString node ''code'' = ''401''"
    using assms(1) by (simp add: attrString_def)
  have ct: "OptionalString (GetOptionalChildByTag node ''conflict'') ''type'' = ''device_removed''"
    using assms(2,3) by (simp add: OptionalString_def attrString_def)
  show ?thesis
    unfolding handleStreamError_def Let_def ct code
    by (simp add: go_def logf_def expectDisconnect_def Store_Delete_def Delete_def
        split: option.splits)
qed

theorem handleStreamError_device_removed_witness:
  "handleStreamError connected_client streamError_401_device_removed =
     connected_client\<lparr>isLoggedIn := 0, expectedDisconnectVal := 1,
        spawned := [DispatchEvent (LoggedOut False)],
        Store := dev0\<lparr>deleteCalls := 1\<rparr>,
        Log := [Logf Info ''Got device removed stream error, sending LoggedOut event and deleting session'' []]\<rparr>"
  using handleStreamError_device_removed
          [of streamError_401_device_removed conflict_device_removed connected_client]
  by (simp add: streamError_401_device_removed_def conflict_device_removed_def
      GetOptionalChildByTag_def connected_client_def NewClient_def dev0_def)

section \<open>Connect failures and the ib node\<close>

text \<open>
  Claim C5. \<open>handleConnectFailure\<close> marks the disconnect as expected for every node. When
  the reason attribute is the string "401" it starts the dispatch of \<open>LoggedOut\<close> with
  \<open>OnConnect\<close> true and invokes the deletion of the credential store once; for any other
  reason it starts the dispatch of \<open>ConnectFailure\<close> with the reason and the node, and
  leaves the store alone.
\<close>

theorem handleConnectFailure_outcome:
  "expectedDisconnectVal (handleConnectFailure cli node) = 1
   \<and> (Attrs node ''reason'' = Some (AttrString ''401'') \<longrightarrow>
        spawned (handleConnectFailure cli node) = spawned cli @ [DispatchEvent (LoggedOut True)]
        \<and> Store (handleConnectFailure cli node) =
            (Store cli)\<lparr>deleteCalls := Suc (deleteCalls (Store cli))\<rparr>)
   \<and> (Attrs node ''reason'' \<noteq> Some (AttrString ''401'') \<longrightarrow>
        spawned (handleConnectFailure cli node) =
          spawned cli @ [DispatchEvent (ConnectFailure (attrString node ''reason'') node)]
        \<and> Store (handleConnectFailure cli node) = Store cli)"
proof -
  have r: "(String_attr node ''reason'' = ''401'') = (Attrs node ''reason'' = Some (AttrString ''401''))"
    by (auto simp: String_attr_def attrString_def split: option.splits attr.splits)
  show ?thesis
    unfolding handleConnectFailure_def Let_def r
    by (simp add: go_def logf_def expectDisconnect_def Store_Delete_def Delete_def String_attr_def
        split: option.splits)
qed

theorem handleConnectFailure_outcome_witness:
  "expectedDisconnectVal (handleConnectFailure connected_client failure_401) = 1
   \<and> spawned (handleConnectFailure connected_client failure_401) = [DispatchEvent (LoggedOut True)]
   \<and> deleteCalls (Store (handleConnectFailure connected_client failure_401)) = 1
   \<and> expectedDisconnectVal (handleConnectFailure connected_client failure_405) = 1
   \<and> spawned (handleConnectFailure connected_client failure_405) =
       [DispatchEvent (ConnectFailure ''405'' failure_405)]
   \<and> deleteCalls (Store (handleConnectFailure connected_client failure_405)) = 0"
  using handleConnectFailure_outcome [of connected_client failure_401]
        handleConnectFailure_outcome [of connected_client failure_405]
  by (simp add: failure_401_def failure_405_def connected_client_def NewClient_def dev0_def
      attrString_def)

text \<open>
  Claim C10. \<open>handleIB\<close> starts the dispatch of a \<open>QRScannedWithoutMultidevice\<close> event if and
  only if the node has exactly one child and that child's tag is "downgrade_webclient";
  for every other node it returns the client unchanged.
\<close>

theorem handleIB_dispatch:
  "(spawned (handleIB cli node) = spawned cli @ [DispatchEvent QRScannedWithoutMultidevice])
     = (\<exists>c. GetChildren node = [c] \<and> Tag c = ''downgrade_webclient'')
   \<and> handleIB cli node =
       (if \<exists>c. GetChildren node = [c] \<and> Tag c = ''downgrade_webclient''
        then cli\<lparr>spawned := spawned cli @ [DispatchEvent QRScannedWithoutMultidevice]\<rparr>
        else cli)"
proof -
  have one: "(length xs = 1 \<and> Tag (xs ! 0) = t) = (\<exists>c. xs = [c] \<and> Tag c = t)"
    for xs :: "node list" and t
    by (cases xs) auto
  show ?thesis
    unfolding handleIB_def Let_def one go_def by simp
qed

section \<open>Disconnecting\<close>

text \<open>
  Claim C3, as amended. \<open>Disconnect\<close> is idempotent. When no socket is stored it changes
  nothing; otherwise it stops the stored socket, closing the connection, and clears the
  stored handle. It leaves the expected-disconnect flag as it was.
\<close>

theorem Disconnect_idempotent:
  "Disconnect (Disconnect cli) = Disconnect cli
   \<and> (socket cli = None \<longrightarrow> Disconnect cli = cli)
   \<and> (\<forall>s. socket cli = Some s \<longrightarrow>
         Disconnect cli = cli\<lparr>stops := stops cli @ [(s, True)], socket := None\<rparr>)
   \<and> expectedDisconnectVal (Disconnect cli) = expectedDisconnectVal cli"
  by (cases "socket cli") (simp_all add: Disconnect_def unlockedDisconnect_def Stop_def)

theorem Disconnect_idempotent_witness:
  "Disconnect connected_client = connected_client\<lparr>stops := [(7, True)], socket := None\<rparr>
   \<and> Disconnect (Disconnect connected_client) = Disconnect connected_client
   \<and> Disconnect (NewClient dev0) = NewClient dev0"
proof -
  have a: "socket connected_client = Some 7" "stops connected_client = []"
    by (simp_all add: connected_client_def NewClient_def)
  have b: "socket (NewClient dev0) = None"
    by (simp add: NewClient_def)
  show ?thesis
    using Disconnect_idempotent [of connected_client] Disconnect_idempotent [of "NewClient dev0"] a b
    by (metis append_Nil)
qed

text \<open>
  Claim C3 as stated fails: on a client with a stored socket and a clear
  expected-disconnect flag, \<open>Disconnect\<close> stops the socket and clears the handle, and the
  flag is still clear afterwards.
\<close>

theorem Disconnect_expected_flag_counterexample:
  "socket connected_client = Some 7
   \<and> expectedDisconnectVal connected_client = 0
   \<and> expectedDisconnectVal (Disconnect connected_client) = 0
   \<and> stops (Disconnect connected_client) = [(7, True)]
   \<and> socket (Disconnect connected_client) = None"
  by (simp add: connected_client_def NewClient_def Disconnect_def unlockedDisconnect_def Stop_def)

text \<open>
  Claim C7. The channel-closure callback changes the client only when the reported socket
  is the stored one: for any other socket the stored handle, the flags, the waiters and
  the tasks stay as they are (the callback stops the reported socket and logs). When the
  reported socket is the stored one and the closure was remote and not expected, it starts
  the dispatch of a \<open>Disconnected\<close> event and then the auto-reconnect sequence; when the
  closure was expected or locally initiated it starts no task, so it emits no event.
\<close>

theorem onDisconnect_cases:
  "(socket cli \<noteq> Some ns \<longrightarrow>
      onDisconnect cli ns remote =
        cli\<lparr>stops := stops cli @ [(ns, False)],
            Log := Log cli @ [Logf Debug ''Ignoring OnDisconnect on different socket'' []]\<rparr>)
   \<and> (socket cli = Some ns \<and> remote \<and> expectedDisconnectVal cli \<noteq> 1 \<longrightarrow>
      onDisconnect cli ns remote =
        cli\<lparr>stops := stops cli @ [(ns, False)], socket := None,
            closedWaiters := closedWaiters cli \<union> ran (responseWaiters cli),
            responseWaiters := Map.empty,
            Log := Log cli @ [Logf Debug ''Emitting Disconnected event'' []],
            spawned := spawned cli @ [DispatchEvent Disconnected, AutoReconnect]\<rparr>)
   \<and> (socket cli = Some ns \<and> (\<not> remote \<or> expectedDisconnectVal cli = 1) \<longrightarrow>
      spawned (onDisconnect cli ns remote) = spawned cli
      \<and> socket (onDisconnect cli ns remote) = None
      \<and> responseWaiters (onDisconnect cli ns remote) = Map.empty)"
  by (simp add: onDisconnect_def Let_def Stop_def clearResponseWaiters_def isExpectedDisconnect_def
      logf_def go_def)

theorem onDisconnect_cases_witness:
  "spawned (onDisconnect connected_client 3 True) = []
   \<and> socket (onDisconnect connected_client 3 True) = Some 7
   \<and> spawned (onDisconnect connected_client 7 True) = [DispatchEvent Disconnected, AutoReconnect]
   \<and> spawned (onDisconnect connected_client 7 False) = []
   \<and> spawned (onDisconnect (expectDisconnect connected_client) 7 True) = []"
  using onDisconnect_cases [of connected_client 3 True] onDisconnect_cases [of connected_client 7 True]
    onDisconnect_cases [of connected_client 7 False]
    onDisconnect_cases [of "expectDisconnect connected_client" 7 True]
  by (simp add: connected_client_def NewClient_def expectDisconnect_def)

section \<open>Automatic reconnection\<close>

















section \<open>Registering and removing event handlers\<close>

text \<open>
  Removing at an index within the list never panics and yields the list without that
  element; the loop finds the first index carrying the identifier.
\<close>

lemma clear_fn_in_range:
  "i < length xs \<Longrightarrow> clear_fn xs (int i) = Inr (xs[i := (xs ! i)\<lparr>fn := None\<rparr>])"
  by (simp add: clear_fn_def)

lemma remove_found_head:
  assumes "0 < length hs"
  shows "remove_found hs 0 = Inr (drop 1 hs)"
proof -
  have "clear_fn hs 0 = Inr (hs[0 := (hs ! 0)\<lparr>fn := None\<rparr>])"
    using assms clear_fn_in_range [of 0 hs] by simp
  moreover have "drop 1 (hs[0 := (hs ! 0)\<lparr>fn := None\<rparr>]) = drop 1 hs"
    by simp
  ultimately show ?thesis
    using assms by (simp add: remove_found_def Suc_le_eq)
qed

lemma copy_within_shift:
  assumes "Suc k < length hs"
  shows "copy_within hs k (Suc k) = Inr (take k hs @ drop (Suc k) hs @ [last hs])"
proof -
  have n: "min (length hs - k) (length (drop (Suc k) hs)) = length hs - Suc k"
    using assms by simp
  have d: "drop (k + (length hs - Suc k)) hs = [last hs]"
  proof -
    have "k + (length hs - Suc k) = length hs - 1" using assms by simp
    moreover have "hs \<noteq> []" using assms by auto
    ultimately show ?thesis
      by (metis append_butlast_last_id append_eq_conv_conj length_butlast)
  qed
  show ?thesis
    using assms unfolding copy_within_def Let_def n d by simp
qed

lemma remove_found_inner:
  assumes "0 < k" and "k < length hs"
  shows "remove_found hs k = Inr (take k hs @ drop (Suc k) hs)"
proof (cases "Suc k < length hs")
  case True
  let ?hs1 = "take k hs @ drop (Suc k) hs @ [last hs]"
  have len: "length ?hs1 = length hs" using True by simp
  have c: "copy_within hs k (k + 1) = Inr ?hs1"
    using copy_within_shift [OF True] by simp
  have cl: "clear_fn ?hs1 (int (length ?hs1) - 1)
              = Inr (?hs1[length ?hs1 - 1 := (?hs1 ! (length ?hs1 - 1))\<lparr>fn := None\<rparr>])"
    using clear_fn_in_range [of "length ?hs1 - 1" ?hs1] True
    by (simp add: of_nat_diff)
  have tk: "take (length ?hs1 - 1) ?hs1 = take k hs @ drop (Suc k) hs"
    using True by simp
  have cond: "int k < int (length hs) - 1" using True by simp
  show ?thesis
    unfolding remove_found_def using assms(1) cond
    apply (simp only: c cl sum.case if_True if_False)
    using tk True by (auto simp: nat_diff_distrib')
next
  case False
  then have k: "k = length hs - 1" using assms by simp
  have cl: "clear_fn hs (int (length hs) - 1)
              = Inr (hs[length hs - 1 := (hs ! (length hs - 1))\<lparr>fn := None\<rparr>])"
    using clear_fn_in_range [of "length hs - 1" hs] assms
    by (simp add: of_nat_diff)
  have cond: "\<not> int k < int (length hs) - 1" using False by simp
  show ?thesis
    unfolding remove_found_def using assms cond
    apply (simp only: cl sum.case if_True if_False)
    using k assms by (auto simp: nat_diff_distrib')
qed

lemma remove_found_eq:
  "k < length hs \<Longrightarrow> remove_found hs k = Inr (take k hs @ drop (Suc k) hs)"
  using remove_found_head [of hs] remove_found_inner [of k hs]
  by (cases "k = 0") simp_all

lemma RemoveEventHandler_from_absent:
  "\<forall>j. index \<le> j \<and> j < length hs \<longrightarrow> id' (hs ! j) \<noteq> i \<Longrightarrow>
     RemoveEventHandler_from hs i index = Inr (False, hs)"
proof (induction hs i index rule: RemoveEventHandler_from.induct)
  case (1 hs i index)
  show ?case
  proof (cases "index < length hs")
    case True
    then have ne: "id' (hs ! index) \<noteq> i" using "1.prems" by simp
    have "RemoveEventHandler_from hs i (Suc index) = Inr (False, hs)"
      using "1.IH" [OF True ne] "1.prems" by simp
    then show ?thesis using True ne by simp
  next
    case False
    then show ?thesis by simp
  qed
qed

lemma RemoveEventHandler_from_found:
  "index \<le> k \<Longrightarrow> k < length hs \<Longrightarrow> id' (hs ! k) = i \<Longrightarrow>
   \<forall>j. index \<le> j \<and> j < k \<longrightarrow> id' (hs ! j) \<noteq> i \<Longrightarrow>
     RemoveEventHandler_from hs i index = Inr (True, take k hs @ drop (Suc k) hs)"
proof (induction hs i index rule: RemoveEventHandler_from.induct)
  case (1 hs i index)
  have lt: "index < length hs" using "1.prems" by simp
  show ?case
  proof (cases "index = k")
    case True
    then show ?thesis
      using "1.prems" remove_found_eq [of k hs] by simp
  next
    case False
    then have ne: "id' (hs ! index) \<noteq> i" and le: "Suc index \<le> k"
      using "1.prems" by auto
    have "RemoveEventHandler_from hs i (Suc index) = Inr (True, take k hs @ drop (Suc k) hs)"
      using "1.IH" [OF lt ne le] "1.prems" by simp
    then show ?thesis using lt ne by simp
  qed
qed

text \<open>
  Claim C9. \<open>RemoveEventHandler\<close> never indexes out of range. For an identifier that no
  registration carries it returns false and leaves the client, hence the handler list,
  unchanged. For a registered identifier it returns true and removes exactly the first
  registration carrying it, also when that is the first element of the list; the others
  keep their relative order.
\<close>

theorem RemoveEventHandler_spec:
  "(\<exists>r. RemoveEventHandler cli i = Inr r)
   \<and> (i \<notin> id' ` set (eventHandlers cli) \<longrightarrow> RemoveEventHandler cli i = Inr (False, cli))
   \<and> (\<forall>pre h post. eventHandlers cli = pre @ h # post \<and> id' h = i \<and> i \<notin> id' ` set pre \<longrightarrow>
         RemoveEventHandler cli i = Inr (True, cli\<lparr>eventHandlers := pre @ post\<rparr>))"
proof -
  have absent: "RemoveEventHandler cli i = Inr (False, cli)"
    if "i \<notin> id' ` set (eventHandlers cli)"
  proof -
    have "\<forall>j. 0 \<le> j \<and> j < length (eventHandlers cli) \<longrightarrow> id' (eventHandlers cli ! j) \<noteq> i"
      using that by (metis image_eqI nth_mem)
    then show ?thesis
      using RemoveEventHandler_from_absent [of 0 "eventHandlers cli" i]
      by (simp add: RemoveEventHandler_def)
  qed
  have present: "RemoveEventHandler cli i = Inr (True, cli\<lparr>eventHandlers := pre @ post\<rparr>)"
    if a: "eventHandlers cli = pre @ h # post \<and> id' h = i \<and> i \<notin> id' ` set pre"
    for pre h post
  proof -
    let ?k = "length pre"
    have 1: "?k < length (eventHandlers cli)" using a by simp
    have 2: "id' (eventHandlers cli ! ?k) = i" using a by simp
    have 3: "\<forall>j. 0 \<le> j \<and> j < ?k \<longrightarrow> id' (eventHandlers cli ! j) \<noteq> i"
      using a by (metis image_eqI nth_append nth_mem)
    have "RemoveEventHandler_from (eventHandlers cli) i 0
            = Inr (True, take ?k (eventHandlers cli) @ drop (Suc ?k) (eventHandlers cli))"
      using RemoveEventHandler_from_found [OF _ 1 2 3] by simp
    moreover have "take ?k (eventHandlers cli) @ drop (Suc ?k) (eventHandlers cli) = pre @ post"
      using a by simp
    ultimately show ?thesis
      by (simp add: RemoveEventHandler_def)
  qed
  have total: "\<exists>r. RemoveEventHandler cli i = Inr r"
  proof (cases "i \<in> id' ` set (eventHandlers cli)")
    case True
    then have "\<exists>x \<in> set (eventHandlers cli). id' x = i" by auto
    then obtain pre h post where
      "eventHandlers cli = pre @ h # post" "id' h = i" "\<forall>y \<in> set pre. id' y \<noteq> i"
      using split_list_first_prop [of "eventHandlers cli" "\<lambda>x. id' x = i"] by blast
    then have "eventHandlers cli = pre @ h # post \<and> id' h = i \<and> i \<notin> id' ` set pre"
      by auto
    then have "RemoveEventHandler cli i = Inr (True, cli\<lparr>eventHandlers := pre @ post\<rparr>)"
      by (rule present)
    then show ?thesis by blast
  next
    case False
    then show ?thesis using absent by blast
  qed
  show ?thesis using absent present total by blast
qed

theorem RemoveEventHandler_spec_witness:
  "RemoveEventHandler three_handlers_client 1 =
     Inr (True, three_handlers_client\<lparr>eventHandlers :=
        [\<lparr>fn = Some panicking_handler, id' = 2\<rparr>, \<lparr>fn = Some returning_handler, id' = 3\<rparr>]\<rparr>)
   \<and> RemoveEventHandler three_handlers_client 2 =
     Inr (True, three_handlers_client\<lparr>eventHandlers :=
        [\<lparr>fn = Some returning_handler, id' = 1\<rparr>, \<lparr>fn = Some returning_handler, id' = 3\<rparr>]\<rparr>)
   \<and> RemoveEventHandler three_handlers_client 9 = Inr (False, three_handlers_client)"
proof -
  note found = RemoveEventHandler_spec [THEN conjunct2, THEN conjunct2, rule_format]
  note absent = RemoveEventHandler_spec [THEN conjunct2, THEN conjunct1, rule_format]
  have 1: "RemoveEventHandler three_handlers_client 1 =
     Inr (True, three_handlers_client\<lparr>eventHandlers :=
        [] @ [\<lparr>fn = Some panicking_handler, id' = 2\<rparr>, \<lparr>fn = Some returning_handler, id' = 3\<rparr>]\<rparr>)"
    by (rule found [of _ "[]" "\<lparr>fn = Some returning_handler, id' = 1\<rparr>"])
       (simp add: three_handlers_client_def)
  have 2: "RemoveEventHandler three_handlers_client 2 =
     Inr (True, three_handlers_client\<lparr>eventHandlers :=
        [\<lparr>fn = Some returning_handler, id' = 1\<rparr>] @ [\<lparr>fn = Some returning_handler, id' = 3\<rparr>]\<rparr>)"
    by (rule found [of _ _ "\<lparr>fn = Some panicking_handler, id' = 2\<rparr>"])
       (simp add: three_handlers_client_def)
  have 3: "RemoveEventHandler three_handlers_client 9 = Inr (False, three_handlers_client)"
    by (rule absent) (simp add: three_handlers_client_def)
  show ?thesis using 1 2 3 by simp
qed

section \<open>Dispatching events\<close>






section \<open>Routing incoming frames\<close>

lemma receiveResponse_False:
  "\<not> fst (receiveResponse cli node) \<Longrightarrow> responseWaiters cli' = responseWaiters cli \<Longrightarrow>
     receiveResponse cli' node = (False, cli')"
  by (auto simp: receiveResponse_def split: option.splits attr.splits)

lemma static_router_no_streamend:
  "nodeHandlers cli = nodeHandlers (NewClient d) \<Longrightarrow> nodeHandlers cli t \<noteq> None \<Longrightarrow>
     t \<noteq> ''xmlstreamend''"
  by (auto simp: NewClient_def)

text \<open>
  Claim C8, as amended. For every decoded node that no response waiter takes and whose tag
  has a handler in the router of \<open>NewClient\<close>: when the handler queue has room,
  \<open>handleFrame\<close> appends the node to the queue; when the queue is full it does not drop the
  node: it logs that ordering is no longer guaranteed and starts a detached task that
  enqueues the node, which puts the node at the end of the queue once there is room.
\<close>

theorem handleFrame_queue:
  assumes "Unpack data = Inr decompressed" and "Unmarshal decompressed = Inr node"
    and "nodeHandlers cli = nodeHandlers (NewClient (Store cli))"
    and "nodeHandlers cli (Tag node) \<noteq> None"
    and "\<not> fst (receiveResponse cli node)"
  shows "(length (handlerQueue cli) < handlerQueueSize \<longrightarrow>
           handleFrame Unpack Unmarshal cli data =
             cli\<lparr>recvLog := recvLog cli @ [Logf Debug ''%s'' [ArgNode node]],
                 handlerQueue := handlerQueue cli @ [node]\<rparr>)
       \<and> (\<not> length (handlerQueue cli) < handlerQueueSize \<longrightarrow>
           handleFrame Unpack Unmarshal cli data =
             cli\<lparr>recvLog := recvLog cli @ [Logf Debug ''%s'' [ArgNode node]],
                 Log := Log cli @
                   [Logf Warn ''Handler queue is full, message ordering is no longer guaranteed'' []],
                 spawned := spawned cli @ [EnqueueNode node]\<rparr>)
       \<and> (\<forall>cli'. length (handlerQueue cli') < handlerQueueSize \<longrightarrow>
             runEnqueueNode cli' node = Some (cli'\<lparr>handlerQueue := handlerQueue cli' @ [node]\<rparr>))"
proof -
  let ?cli1 = "cli\<lparr>recvLog := recvLog cli @ [Logf Debug ''%s'' [ArgNode node]]\<rparr>"
  have t: "Tag node \<noteq> ''xmlstreamend''"
    using static_router_no_streamend [OF assms(3,4)] .
  have r: "receiveResponse ?cli1 node = (False, ?cli1)"
    using receiveResponse_False [OF assms(5), of ?cli1] by simp
  have h: "nodeHandlers ?cli1 (Tag node) \<noteq> None"
    using assms(4) by simp
  show ?thesis
    unfolding handleFrame_def Let_def assms(1,2) sum.case r prod.case
    using t h by (simp add: logf_def go_def runEnqueueNode_def)
qed

theorem handleFrame_queue_witness:
  "handlerQueue (handleFrame Unpack_id (Unmarshal_const iq_request) waiting_client []) = [iq_request]
   \<and> spawned (handleFrame Unpack_id (Unmarshal_const iq_request) waiting_client []) = []
   \<and> handlerQueue (handleFrame Unpack_id (Unmarshal_const iq_request) full_client []) =
       handlerQueue full_client
   \<and> spawned (handleFrame Unpack_id (Unmarshal_const iq_request) full_client []) =
       [EnqueueNode iq_request]
   \<and> runEnqueueNode waiting_client iq_request =
       Some (waiting_client\<lparr>handlerQueue := [iq_request]\<rparr>)"
proof -
  have n: "nodeHandlers waiting_client = nodeHandlers (NewClient (Store waiting_client))"
     "nodeHandlers full_client = nodeHandlers (NewClient (Store full_client))"
    by (simp_all add: waiting_client_def full_client_def NewClient_def)
  have t: "nodeHandlers waiting_client (Tag iq_request) \<noteq> None"
      "nodeHandlers full_client (Tag iq_request) \<noteq> None"
    by (simp_all add: waiting_client_def full_client_def NewClient_def iq_request_def)
  have r: "\<not> fst (receiveResponse waiting_client iq_request)"
      "\<not> fst (receiveResponse full_client iq_request)"
    by (simp_all add: waiting_client_def full_client_def NewClient_def iq_request_def
        receiveResponse_def)
  have q: "length (handlerQueue waiting_client) < handlerQueueSize"
      "handlerQueue waiting_client = []"
      "\<not> length (handlerQueue full_client) < handlerQueueSize"
      "spawned waiting_client = []" "spawned full_client = []"
    by (simp_all add: waiting_client_def full_client_def NewClient_def)
       (simp add: handlerQueueSize_def)
  show ?thesis
    using handleFrame_queue
            [of Unpack_id "[]" "[]" "Unmarshal_const iq_request" iq_request waiting_client,
             OF _ _ n(1) t(1) r(1)]
          handleFrame_queue
            [of Unpack_id "[]" "[]" "Unmarshal_const iq_request" iq_request full_client,
             OF _ _ n(2) t(2) r(2)] q
    by (simp add: Unpack_id_def Unmarshal_const_def)
qed

text \<open>
  Claim C8 as stated fails for a node that answers a pending request: its tag "iq" has a
  registered handler and the queue has room, yet the node goes to the waiter and is not
  enqueued.
\<close>

theorem handleFrame_response_counterexample:
  "nodeHandlers waiting_client (Tag iq_response) = Some handleIQ_h
   \<and> length (handlerQueue waiting_client) < handlerQueueSize
   \<and> handlerQueue (handleFrame Unpack_id (Unmarshal_const iq_response) waiting_client []) = []
   \<and> spawned (handleFrame Unpack_id (Unmarshal_const iq_response) waiting_client []) = []
   \<and> delivered (handleFrame Unpack_id (Unmarshal_const iq_response) waiting_client []) =
       [(5, iq_response)]"
  by (simp add: waiting_client_def iq_response_def NewClient_def handlerQueueSize_def handleFrame_def
      Unpack_id_def Unmarshal_const_def logf_def receiveResponse_def)

end
